theory Spec2Isabelle
  imports
    Complex_Main
    "HOL-Library.Char_ord"
    "HOL-Library.List_Lexorder"
    "HOL-Library.Option_ord"
    "HOL-Library.Multiset"
    "HOL-Library.Sublist"
begin

section \<open>The job tracker of CustomGPT/src/job\_tracker.py\<close>

text \<open>
  \<^verbatim>\<open>JobTracker\<close> keeps job applications and interviews in two SQLite tables and offers
  create, read, update, delete and aggregate operations on them. Every method opens a
  connection, runs its statements in one transaction and closes the connection, so a
  method is a function from the database before the call to its result and the database
  after it.

  Conventions of the embedding:
  \<^item> a text column is a \<open>string option\<close>: \<open>None\<close> is SQL \<open>NULL\<close> (Python \<open>None\<close>), a
    string is its UTF-8 byte sequence, compared bytewise as SQLite's default collation
    does;
  \<^item> Python integers are \<open>int\<close>; binding one outside the signed 64-bit range raises
    \<open>OverflowError\<close> in the \<open>sqlite3\<close> module;
  \<^item> an exception is the left injection of a sum; \<open>try ... except\<close> is a case
    distinction on the body's result;
  \<^item> the wall clock is a parameter: \<open>now\<close> is the text of
    \<open>datetime.now().isoformat()\<close>, and \<open>cal d\<close> is the text of the UTC date \<open>d\<close> days from
    today, as SQLite's \<open>date('now', '+d days')\<close> gives it (\<open>None\<close> beyond year 9999);
  \<^item> the field \<open>id\<close> of both dataclasses is written \<open>app_id\<close> and \<open>iv_id\<close>, since \<open>id\<close> is
    the identity function of HOL, and \<open>notes\<close> is written \<open>app_notes\<close>, since \<open>notes\<close> is a
    keyword of Isabelle; the other fields of \<open>Interview\<close> that share a name with a
    field of \<open>JobApplication\<close> carry the prefix \<open>iv_\<close>; a parameter \<open>application_id\<close> of a
    method is written \<open>aid\<close>, since the name is the field of \<open>Interview\<close>.
\<close>

subsection \<open>Data model\<close>

datatype error = OperationalError | IntegrityError | OverflowError | ZeroDivisionError

datatype py_value = PyNone | PyInt int | PyStr string

record JobApplication =
  app_id :: "int option"
  company :: "string option"
  position :: "string option"
  location :: "string option"
  job_url :: "string option"
  job_description :: "string option"
  application_date :: "string option"
  status :: "string option"
  priority :: "string option"
  salary_range :: "string option"
  app_notes :: "string option"
  recruiter_name :: "string option"
  recruiter_email :: "string option"
  follow_up_date :: "string option"
  interview_date :: "string option"
  interview_type :: "string option"
  interview_notes :: "string option"
  rejection_reason :: "string option"
  offer_amount :: "string option"
  created_at :: "string option"
  updated_at :: "string option"

record Interview =
  iv_id :: "int option"
  application_id :: int
  iv_interview_date :: "string option"
  iv_interview_type :: "string option"
  interviewer_name :: "string option"
  interviewer_title :: "string option"
  questions_asked :: "string option"
  my_answers :: "string option"
  feedback_received :: "string option"
  next_steps :: "string option"
  preparation_notes :: "string option"
  iv_created_at :: "string option"
  iv_updated_at :: "string option"

text \<open>The field defaults of the two dataclasses.\<close>

definition JobApplication_default :: JobApplication where
  "JobApplication_default =
     \<lparr>app_id = None, company = Some [], position = Some [], location = Some [],
      job_url = Some [], job_description = Some [], application_date = Some [],
      status = Some ''applied'', priority = Some ''medium'', salary_range = Some [],
      app_notes = Some [], recruiter_name = Some [], recruiter_email = Some [],
      follow_up_date = Some [], interview_date = Some [], interview_type = Some [],
      interview_notes = Some [], rejection_reason = Some [], offer_amount = Some [],
      created_at = Some [], updated_at = Some []\<rparr>"

definition Interview_default :: Interview where
  "Interview_default =
     \<lparr>iv_id = None, application_id = 0, iv_interview_date = Some [],
      iv_interview_type = Some [], interviewer_name = Some [], interviewer_title = Some [],
      questions_asked = Some [], my_answers = Some [], feedback_received = Some [],
      next_steps = Some [], preparation_notes = Some [], iv_created_at = Some [],
      iv_updated_at = Some []\<rparr>"

text \<open>
  The database file. \<open>accessible\<close> says whether \<open>sqlite3.connect\<close> and the statements
  that follow can reach it. The two tables hold their rows in insertion order; the two
  counters are the rows of \<open>sqlite_sequence\<close> that \<open>AUTOINCREMENT\<close> maintains (0 before the
  first insert).
\<close>

record store =
  accessible :: bool
  job_applications :: "JobApplication list"
  interviews :: "Interview list"
  app_sequence :: int
  iv_sequence :: int

definition empty_store :: store where
  "empty_store =
     \<lparr>accessible = True, job_applications = [], interviews = [],
      app_sequence = 0, iv_sequence = 0\<rparr>"

subsection \<open>What SQLite and the \<open>sqlite3\<close> module do with the statements\<close>

definition fits_int64 :: "int \<Rightarrow> bool" where
  "fits_int64 n \<longleftrightarrow> - (2 ^ 63) \<le> n \<and> n < 2 ^ 63"

text \<open>
  \<open>AUTOINCREMENT\<close>: the new rowid is one more than the largest of the rowids in the table
  and the counter of \<open>sqlite_sequence\<close>; when that is the largest 64-bit integer the insert
  fails (database or disk is full).
\<close>

definition new_rowid :: "int \<Rightarrow> int list \<Rightarrow> error + int" where
  "new_rowid seq ids =
     (let m = fold max ids seq
      in if 2 ^ 63 - 1 \<le> m then Inl OperationalError else Inr (m + 1))"

text \<open>\<open>ORDER BY key DESC\<close> and \<open>LIMIT\<close> (a negative limit is no limit).\<close>

definition order_by_desc :: "('a \<Rightarrow> 'k::linorder) \<Rightarrow> 'a list \<Rightarrow> 'a list" where
  "order_by_desc key rows = rev (sort_key key (rev rows))"

definition sql_limit :: "int \<Rightarrow> 'a list \<Rightarrow> 'a list" where
  "sql_limit n rows = (if n < 0 then rows else take (nat n) rows)"

text \<open>
  \<open>LIKE\<close>: \<open>%\<close> matches any run of characters, \<open>_\<close> one character, and any other
  character matches itself, the ASCII letters regardless of case. There is no escape
  character. The pattern comes first.
\<close>

definition ascii_lower :: "char \<Rightarrow> char" where
  "ascii_lower c =
     (if CHR ''A'' \<le> c \<and> c \<le> CHR ''Z'' then char_of (of_char c + (32::nat)) else c)"

fun like_match :: "string \<Rightarrow> string \<Rightarrow> bool" where
  "like_match [] [] = True"
| "like_match [] (c # cs) = False"
| "like_match (p # ps) [] = (p = CHR ''%'' \<and> like_match ps [])"
| "like_match (p # ps) (c # cs) =
     (if p = CHR ''%'' then like_match ps (c # cs) \<or> like_match (p # ps) cs
      else (p = CHR ''_'' \<or> ascii_lower p = ascii_lower c) \<and> like_match ps cs)"

definition sql_like :: "string option \<Rightarrow> string \<Rightarrow> bool" where
  "sql_like text pat = (case text of None \<Rightarrow> False | Some t \<Rightarrow> like_match pat t)"

subsection \<open>Reading and deleting\<close>

definition get_application_try :: "store \<Rightarrow> int \<Rightarrow> error + JobApplication option" where
  "get_application_try st aid =
     (if \<not> accessible st then Inl OperationalError
      else if \<not> fits_int64 aid then Inl OverflowError
      else Inr (find (\<lambda>a. app_id a = Some aid) (job_applications st)))"

definition get_application :: "store \<Rightarrow> int \<Rightarrow> error + JobApplication option" where
  "get_application st aid =
     (case get_application_try st aid of
        Inl e \<Rightarrow> Inr None
      | Inr r \<Rightarrow> Inr r)"

text \<open>
  \<open>if application_id:\<close> is Python's truth test: \<open>None\<close> and \<open>0\<close> both select the
  statement without a \<open>WHERE\<close> clause.
\<close>

definition get_interviews_try :: "store \<Rightarrow> int option \<Rightarrow> error + Interview list" where
  "get_interviews_try st aid =
     (if \<not> accessible st then Inl OperationalError
      else case aid of
        None \<Rightarrow> Inr (order_by_desc iv_interview_date (interviews st))
      | Some i \<Rightarrow>
          if i \<noteq> 0 then
            if \<not> fits_int64 i then Inl OverflowError
            else Inr (order_by_desc iv_interview_date
                        (filter (\<lambda>v. application_id v = i) (interviews st)))
          else Inr (order_by_desc iv_interview_date (interviews st)))"

definition get_interviews :: "store \<Rightarrow> int option \<Rightarrow> error + Interview list" where
  "get_interviews st aid =
     (case get_interviews_try st aid of
        Inl e \<Rightarrow> Inr []
      | Inr r \<Rightarrow> Inr r)"

text \<open>
  \<open>delete_application\<close> deletes the interviews of the application, then the application;
  \<open>cursor.rowcount\<close> is the row count of the second statement. SQLite does not enforce
  the foreign key (the module never switches \<open>foreign_keys\<close> on), so the cascade is this
  first statement and nothing else.
\<close>

definition delete_application_try :: "store \<Rightarrow> int \<Rightarrow> error + (bool \<times> store)" where
  "delete_application_try st aid =
     (if \<not> accessible st then Inl OperationalError
      else if \<not> fits_int64 aid then Inl OverflowError
      else
        let ivs = filter (\<lambda>v. application_id v \<noteq> aid) (interviews st);
            apps = filter (\<lambda>a. app_id a \<noteq> Some aid) (job_applications st);
            rowcount = length (job_applications st) - length apps
        in Inr (0 < rowcount, st\<lparr>job_applications := apps, interviews := ivs\<rparr>))"

definition delete_application :: "store \<Rightarrow> int \<Rightarrow> error + (bool \<times> store)" where
  "delete_application st aid =
     (case delete_application_try st aid of
        Inl e \<Rightarrow> Inr (False, st)
      | Inr r \<Rightarrow> Inr r)"

subsection \<open>Creating\<close>

text \<open>
  \<open>init_database\<close> creates the two tables and the four indexes if they are absent. The
  store of this embedding is a database in which they exist (the constructor runs
  \<open>init_database\<close> before any other method), so the statements change nothing; the
  handler logs and raises again.
\<close>

definition init_database_try :: "store \<Rightarrow> error + store" where
  "init_database_try st = (if \<not> accessible st then Inl OperationalError else Inr st)"

definition init_database :: "store \<Rightarrow> error + store" where
  "init_database st =
     (case init_database_try st of
        Inl e \<Rightarrow> Inl e
      | Inr r \<Rightarrow> Inr r)"

text \<open>
  \<open>add_application\<close> stamps both timestamps with \<open>now\<close> and inserts every field but the
  identifier, which SQLite assigns; \<open>company\<close> and \<open>position\<close> are \<open>NOT NULL\<close>. The handler
  logs and raises again. (The Python also writes the timestamps into the caller's
  object; the embedding keeps only the database.)
\<close>

definition add_application_try ::
  "string \<Rightarrow> store \<Rightarrow> JobApplication \<Rightarrow> error + (int \<times> store)" where
  "add_application_try now st application =
     (if \<not> accessible st then Inl OperationalError
      else case new_rowid (app_sequence st) (List.map_filter app_id (job_applications st)) of
        Inl e \<Rightarrow> Inl e
      | Inr rowid \<Rightarrow>
          if company application = None \<or> position application = None
          then Inl IntegrityError
          else Inr (rowid,
            st\<lparr>job_applications := job_applications st @
                  [application\<lparr>app_id := Some rowid, created_at := Some now,
                               updated_at := Some now\<rparr>],
               app_sequence := rowid\<rparr>))"

definition add_application ::
  "string \<Rightarrow> store \<Rightarrow> JobApplication \<Rightarrow> error + (int \<times> store)" where
  "add_application now st application =
     (case add_application_try now st application of
        Inl e \<Rightarrow> Inl e
      | Inr r \<Rightarrow> Inr r)"

definition add_interview_try ::
  "string \<Rightarrow> store \<Rightarrow> Interview \<Rightarrow> error + (int \<times> store)" where
  "add_interview_try now st interview =
     (if \<not> accessible st then Inl OperationalError
      else if \<not> fits_int64 (application_id interview) then Inl OverflowError
      else case new_rowid (iv_sequence st) (List.map_filter iv_id (interviews st)) of
        Inl e \<Rightarrow> Inl e
      | Inr rowid \<Rightarrow>
          Inr (rowid,
            st\<lparr>interviews := interviews st @
                  [interview\<lparr>iv_id := Some rowid, iv_created_at := Some now,
                             iv_updated_at := Some now\<rparr>],
               iv_sequence := rowid\<rparr>))"

definition add_interview ::
  "string \<Rightarrow> store \<Rightarrow> Interview \<Rightarrow> error + (int \<times> store)" where
  "add_interview now st interview =
     (case add_interview_try now st interview of
        Inl e \<Rightarrow> Inl e
      | Inr r \<Rightarrow> Inr r)"

subsection \<open>Filtered listing\<close>

text \<open>
  \<open>if status:\<close> and \<open>if company:\<close> are truth tests: \<open>None\<close> and the empty string add no
  condition. The company condition is \<open>company LIKE '%' + company + '%'\<close>. Rows with equal
  application dates come in an order SQL leaves open; the embedding keeps their
  insertion order.
\<close>

definition get_applications_try ::
  "store \<Rightarrow> string option \<Rightarrow> string option \<Rightarrow> int \<Rightarrow> error + JobApplication list" where
  "get_applications_try st status_filter company_filter limit =
     (if \<not> accessible st then Inl OperationalError
      else if \<not> fits_int64 limit then Inl OverflowError
      else
        let rows = job_applications st;
            rows = (case status_filter of
                      None \<Rightarrow> rows
                    | Some s \<Rightarrow>
                        if s \<noteq> [] then filter (\<lambda>a. status a = Some s) rows else rows);
            rows = (case company_filter of
                      None \<Rightarrow> rows
                    | Some c \<Rightarrow>
                        if c \<noteq> []
                        then filter (\<lambda>a. sql_like (company a) (CHR ''%'' # c @ [CHR ''%''])) rows
                        else rows)
        in Inr (sql_limit limit (order_by_desc application_date rows)))"

definition get_applications ::
  "store \<Rightarrow> string option \<Rightarrow> string option \<Rightarrow> int \<Rightarrow> error + JobApplication list" where
  "get_applications st status_filter company_filter limit =
     (case get_applications_try st status_filter company_filter limit of
        Inl e \<Rightarrow> Inr []
      | Inr r \<Rightarrow> Inr r)"

text \<open>The default of the parameter \<open>limit\<close>.\<close>

definition get_applications_default_limit :: int where
  "get_applications_default_limit = 50"

subsection \<open>Partial update\<close>

text \<open>
  The keys of \<open>updates\<close> become the column names of the \<open>SET\<close> clause. A key that is the
  name of a column, spelled as the schema spells it, is that column; for any other key
  the statement does not compile (no such column). Other spellings that SQLite would
  still resolve (another letter case, quoting) are outside the embedding.
\<close>

datatype column =
    Cid | Ccompany | Cposition | Clocation | Cjob_url | Cjob_description
  | Capplication_date | Cstatus | Cpriority | Csalary_range | Cnotes | Crecruiter_name
  | Crecruiter_email | Cfollow_up_date | Cinterview_date | Cinterview_type
  | Cinterview_notes | Crejection_reason | Coffer_amount | Ccreated_at | Cupdated_at

definition column_of :: "string \<Rightarrow> column option" where
  "column_of k =
     map_of
       [(''id'', Cid), (''company'', Ccompany), (''position'', Cposition),
        (''location'', Clocation), (''job_url'', Cjob_url),
        (''job_description'', Cjob_description), (''application_date'', Capplication_date),
        (''status'', Cstatus), (''priority'', Cpriority), (''salary_range'', Csalary_range),
        (''notes'', Cnotes), (''recruiter_name'', Crecruiter_name),
        (''recruiter_email'', Crecruiter_email), (''follow_up_date'', Cfollow_up_date),
        (''interview_date'', Cinterview_date), (''interview_type'', Cinterview_type),
        (''interview_notes'', Cinterview_notes), (''rejection_reason'', Crejection_reason),
        (''offer_amount'', Coffer_amount), (''created_at'', Ccreated_at),
        (''updated_at'', Cupdated_at)] k"

text \<open>Python's \<open>str\<close> of an integer: what a \<open>TEXT\<close> column stores for an integer value.\<close>

fun digits10 :: "nat \<Rightarrow> string" where
  "digits10 n =
     (if n < 10 then [char_of (48 + n)]
      else digits10 (n div 10) @ [char_of (48 + n mod 10)])"

declare digits10.simps [simp del]

definition str_of_int :: "int \<Rightarrow> string" where
  "str_of_int i = (if i < 0 then CHR ''-'' # digits10 (nat (- i)) else digits10 (nat i))"

definition text_of_value :: "py_value \<Rightarrow> string option" where
  "text_of_value v =
     (case v of PyNone \<Rightarrow> None | PyInt n \<Rightarrow> Some (str_of_int n) | PyStr s \<Rightarrow> Some s)"

text \<open>
  One assignment of the \<open>SET\<close> clause on one row. The identifier takes an integer
  (anything else is a datatype mismatch; text that SQLite would read as an integer is
  outside the embedding), \<open>company\<close> and \<open>position\<close> refuse \<open>NULL\<close>.
\<close>

fun put_column :: "column \<Rightarrow> py_value \<Rightarrow> JobApplication \<Rightarrow> error + JobApplication" where
  "put_column Cid v a =
     (case v of PyInt n \<Rightarrow> Inr (a\<lparr>app_id := Some n\<rparr>) | _ \<Rightarrow> Inl IntegrityError)"
| "put_column Ccompany v a =
     (case text_of_value v of
        None \<Rightarrow> Inl IntegrityError
      | Some t \<Rightarrow> Inr (a\<lparr>company := Some t\<rparr>))"
| "put_column Cposition v a =
     (case text_of_value v of
        None \<Rightarrow> Inl IntegrityError
      | Some t \<Rightarrow> Inr (a\<lparr>position := Some t\<rparr>))"
| "put_column Clocation v a = Inr (a\<lparr>location := text_of_value v\<rparr>)"
| "put_column Cjob_url v a = Inr (a\<lparr>job_url := text_of_value v\<rparr>)"
| "put_column Cjob_description v a = Inr (a\<lparr>job_description := text_of_value v\<rparr>)"
| "put_column Capplication_date v a = Inr (a\<lparr>application_date := text_of_value v\<rparr>)"
| "put_column Cstatus v a = Inr (a\<lparr>status := text_of_value v\<rparr>)"
| "put_column Cpriority v a = Inr (a\<lparr>priority := text_of_value v\<rparr>)"
| "put_column Csalary_range v a = Inr (a\<lparr>salary_range := text_of_value v\<rparr>)"
| "put_column Cnotes v a = Inr (a\<lparr>app_notes := text_of_value v\<rparr>)"
| "put_column Crecruiter_name v a = Inr (a\<lparr>recruiter_name := text_of_value v\<rparr>)"
| "put_column Crecruiter_email v a = Inr (a\<lparr>recruiter_email := text_of_value v\<rparr>)"
| "put_column Cfollow_up_date v a = Inr (a\<lparr>follow_up_date := text_of_value v\<rparr>)"
| "put_column Cinterview_date v a = Inr (a\<lparr>interview_date := text_of_value v\<rparr>)"
| "put_column Cinterview_type v a = Inr (a\<lparr>interview_type := text_of_value v\<rparr>)"
| "put_column Cinterview_notes v a = Inr (a\<lparr>interview_notes := text_of_value v\<rparr>)"
| "put_column Crejection_reason v a = Inr (a\<lparr>rejection_reason := text_of_value v\<rparr>)"
| "put_column Coffer_amount v a = Inr (a\<lparr>offer_amount := text_of_value v\<rparr>)"
| "put_column Ccreated_at v a = Inr (a\<lparr>created_at := text_of_value v\<rparr>)"
| "put_column Cupdated_at v a = Inr (a\<lparr>updated_at := text_of_value v\<rparr>)"



text \<open>
  \<open>updates['updated_at'] = ...\<close> on a dictionary kept as the list of its items: the value
  of a key that is present is replaced where it stands, a new key goes to the end.
\<close>

definition dict_set :: "('k \<times> 'v) list \<Rightarrow> 'k \<Rightarrow> 'v \<Rightarrow> ('k \<times> 'v) list" where
  "dict_set d k v =
     (if k \<in> set (map fst d) then map (\<lambda>(k', v'). if k' = k then (k, v) else (k', v')) d
      else d @ [(k, v)])"

fun resolve_columns :: "(string \<times> py_value) list \<Rightarrow> (column \<times> py_value) list option" where
  "resolve_columns [] = Some []"
| "resolve_columns ((k, v) # kvs) =
     (case column_of k of
        None \<Rightarrow> None
      | Some c \<Rightarrow>
          (case resolve_columns kvs of
             None \<Rightarrow> None
           | Some cvs \<Rightarrow> Some ((c, v) # cvs)))"

definition binds :: "py_value \<Rightarrow> bool" where
  "binds v = (case v of PyInt n \<Rightarrow> fits_int64 n | _ \<Rightarrow> True)"

fun apply_assignments ::
  "(column \<times> py_value) list \<Rightarrow> JobApplication \<Rightarrow> error + JobApplication" where
  "apply_assignments [] a = Inr a"
| "apply_assignments ((c, v) # cvs) a =
     (case put_column c v a of
        Inl e \<Rightarrow> Inl e
      | Inr a' \<Rightarrow> apply_assignments cvs a')"

fun replace_row :: "int \<Rightarrow> JobApplication \<Rightarrow> JobApplication list \<Rightarrow> JobApplication list" where
  "replace_row i a' [] = []"
| "replace_row i a' (r # rs) =
     (if app_id r = Some i then a' # rs else r # replace_row i a' rs)"

text \<open>
  \<open>update_application\<close>: the statement is compiled (every key must be a column), its
  parameters are bound (every integer must fit), and it runs on the row whose identifier
  is \<open>aid\<close>, if there is one; the identifier is the primary key, so a new identifier that
  another row holds is refused. Any exception rolls the transaction back and the handler
  returns \<open>False\<close>. (The Python also leaves the key \<open>updated_at\<close> in the caller's dictionary.)
\<close>

definition update_application_try ::
  "string \<Rightarrow> store \<Rightarrow> int \<Rightarrow> (string \<times> py_value) list \<Rightarrow> error + (bool \<times> store)" where
  "update_application_try now st aid updates =
     (if \<not> accessible st then Inl OperationalError
      else
        (let updates = dict_set updates ''updated_at'' (PyStr now)
         in (case resolve_columns updates of
           None \<Rightarrow> Inl OperationalError
         | Some assignments \<Rightarrow>
             (if \<not> list_all binds (map snd updates @ [PyInt aid]) then Inl OverflowError
              else (case find (\<lambda>a. app_id a = Some aid) (job_applications st) of
                None \<Rightarrow> Inr (False, st)
              | Some row \<Rightarrow>
                  (case apply_assignments assignments row of
                     Inl e \<Rightarrow> Inl e
                   | Inr row' \<Rightarrow>
                       (if app_id row' \<noteq> Some aid
                           \<and> app_id row' \<in> set (map app_id (job_applications st))
                        then Inl IntegrityError
                        else Inr (True,
                          st\<lparr>job_applications :=
                               replace_row aid row' (job_applications st)\<rparr>))))))))"

definition update_application ::
  "string \<Rightarrow> store \<Rightarrow> int \<Rightarrow> (string \<times> py_value) list \<Rightarrow> error + (bool \<times> store)" where
  "update_application now st aid updates =
     (case update_application_try now st aid updates of
        Inl e \<Rightarrow> Inr (False, st)
      | Inr r \<Rightarrow> Inr r)"

subsection \<open>Statistics\<close>

text \<open>
  \<open>SELECT key, COUNT(*) ... GROUP BY key\<close>: one pair for each distinct key, in ascending
  key order. \<open>dict(cursor.fetchall())\<close> keeps the pairs as the items of a dictionary, so a
  dictionary is the list of its items and \<open>d.get(k, default)\<close> reads the last item with
  key \<open>k\<close>.
\<close>

definition group_count :: "('a \<Rightarrow> 'k::linorder) \<Rightarrow> 'a list \<Rightarrow> ('k \<times> nat) list" where
  "group_count key rows =
     map (\<lambda>k. (k, length (filter (\<lambda>r. key r = k) rows))) (sort (remdups (map key rows)))"

definition dict_get :: "('k \<times> 'v) list \<Rightarrow> 'k \<Rightarrow> 'v \<Rightarrow> 'v" where
  "dict_get d k dflt = (case map_of (rev d) k of None \<Rightarrow> dflt | Some v \<Rightarrow> v)"

text \<open>
  The response rate is a Python float. The embedding computes it in exact rational
  arithmetic: \<open>/\<close> raises on a zero divisor, and \<open>round(x, 2)\<close> rounds to the nearest
  hundredth, a tie to the even one. The binary representation error of a float is not
  modelled.
\<close>

definition py_truediv :: "nat \<Rightarrow> nat \<Rightarrow> error + rat" where
  "py_truediv a b = (if b = 0 then Inl ZeroDivisionError else Inr (of_nat a / of_nat b))"

definition round_half_even :: "rat \<Rightarrow> int" where
  "round_half_even x =
     (let f = \<lfloor>x\<rfloor>; d = x - of_int f
      in if d < 1 / 2 then f else if 1 / 2 < d then f + 1 else if even f then f else f + 1)"

definition py_round2 :: "rat \<Rightarrow> rat" where
  "py_round2 x = of_int (round_half_even (x * 100)) / 100"

record statistics =
  total_applications :: nat
  status_counts :: "(string option \<times> nat) list"
  company_counts :: "(string option \<times> nat) list"
  monthly_counts :: "(string option \<times> nat) list"
  total_interviews :: nat
  response_rate :: rat

text \<open>
  \<open>month_of\<close> stands for SQLite's \<open>strftime('%Y-%m', application_date)\<close>, whose date parser
  is not part of the repository: the theorems hold for every such function. The ten
  companies are those with the highest counts (companies with equal counts in an order
  SQL leaves open; the embedding takes them in ascending name order), the twelve months
  the latest ones. The result \<open>None\<close> is the empty dictionary that the handler returns.
\<close>

definition get_statistics_try ::
  "(string option \<Rightarrow> string option) \<Rightarrow> store \<Rightarrow> error + statistics option" where
  "get_statistics_try month_of st =
     (if \<not> accessible st then Inl OperationalError
      else
        (let n_applications = length (job_applications st);
             by_status = group_count status (job_applications st);
             by_company =
               sql_limit 10 (order_by_desc snd (group_count company (job_applications st)));
             by_month =
               sql_limit 12
                 (rev (group_count (\<lambda>a. month_of (application_date a)) (job_applications st)));
             n_interviews = length (interviews st);
             responded =
               dict_get by_status (Some ''interview_scheduled'') 0
               + dict_get by_status (Some ''rejected'') 0
               + dict_get by_status (Some ''offer_received'') 0
         in (case (if 0 < n_applications
                   then (case py_truediv responded n_applications of
                           Inl e \<Rightarrow> Inl e
                         | Inr q \<Rightarrow> Inr (q * 100))
                   else Inr 0) of
               Inl e \<Rightarrow> Inl e
             | Inr rate \<Rightarrow>
                 Inr (Some \<lparr>total_applications = n_applications, status_counts = by_status,
                            company_counts = by_company, monthly_counts = by_month,
                            total_interviews = n_interviews,
                            response_rate = py_round2 rate\<rparr>))))"

definition get_statistics ::
  "(string option \<Rightarrow> string option) \<Rightarrow> store \<Rightarrow> error + statistics option" where
  "get_statistics month_of st =
     (case get_statistics_try month_of st of
        Inl e \<Rightarrow> Inr None
      | Inr r \<Rightarrow> Inr r)"

subsection \<open>Follow-up reminders\<close>

text \<open>
  The statement compares the text of \<open>follow_up_date\<close> with the text of
  \<open>date('now', '+N days')\<close>, where the modifier is built by \<open>'+{} days'.format(days_ahead)\<close>.
  For a negative \<open>days_ahead\<close> the modifier reads \<open>'+-3 days'\<close>, which SQLite does not accept:
  \<open>date\<close> then yields \<open>NULL\<close>, as it does when the date lies beyond year 9999. A comparison
  with \<open>NULL\<close> is never true.
\<close>

definition sql_date_now_plus :: "(nat \<Rightarrow> string option) \<Rightarrow> int \<Rightarrow> string option" where
  "sql_date_now_plus cal days_ahead = (if days_ahead < 0 then None else cal (nat days_ahead))"

definition sql_le :: "string option \<Rightarrow> string option \<Rightarrow> bool" where
  "sql_le x y =
     (case x of
        None \<Rightarrow> False
      | Some a \<Rightarrow> (case y of None \<Rightarrow> False | Some b \<Rightarrow> a \<le> b))"

definition needs_follow_up :: "string option \<Rightarrow> JobApplication \<Rightarrow> bool" where
  "needs_follow_up cutoff a \<longleftrightarrow>
     follow_up_date a \<noteq> None \<and> sql_le (follow_up_date a) cutoff
     \<and> (status a = Some ''applied'' \<or> status a = Some ''under_review'')"

definition get_follow_up_reminders_try ::
  "(nat \<Rightarrow> string option) \<Rightarrow> store \<Rightarrow> int \<Rightarrow> error + JobApplication list" where
  "get_follow_up_reminders_try cal st days_ahead =
     (if \<not> accessible st then Inl OperationalError
      else Inr (sort_key follow_up_date
                  (filter (needs_follow_up (sql_date_now_plus cal days_ahead))
                     (job_applications st))))"

definition get_follow_up_reminders ::
  "(nat \<Rightarrow> string option) \<Rightarrow> store \<Rightarrow> int \<Rightarrow> error + JobApplication list" where
  "get_follow_up_reminders cal st days_ahead =
     (case get_follow_up_reminders_try cal st days_ahead of
        Inl e \<Rightarrow> Inr []
      | Inr r \<Rightarrow> Inr r)"


subsection \<open>A calendar for the examples\<close>

text \<open>
  The Gregorian calendar, one day at a time: \<open>utc_calendar today d\<close> is the text
  \<open>YYYY-MM-DD\<close> of the date \<open>d\<close> days after \<open>today\<close>, and \<open>iso_month\<close> is the month of a date
  written \<open>YYYY-MM-DD\<close>. They instantiate the parameters \<open>cal\<close> and \<open>month_of\<close> in the
  examples.
\<close>

definition leap_year :: "nat \<Rightarrow> bool" where
  "leap_year y \<longleftrightarrow> y mod 4 = 0 \<and> (y mod 100 \<noteq> 0 \<or> y mod 400 = 0)"

definition days_in_month :: "nat \<Rightarrow> nat \<Rightarrow> nat" where
  "days_in_month y m =
     (if m = 2 then (if leap_year y then 29 else 28)
      else if m = 4 \<or> m = 6 \<or> m = 9 \<or> m = 11 then 30 else 31)"

definition next_day :: "nat \<times> nat \<times> nat \<Rightarrow> nat \<times> nat \<times> nat" where
  "next_day dt =
     (case dt of (y, m, d) \<Rightarrow>
        if d < days_in_month y m then (y, m, d + 1)
        else if m < 12 then (y, m + 1, 1) else (y + 1, 1, 1))"

fun plus_days :: "nat \<Rightarrow> nat \<times> nat \<times> nat \<Rightarrow> nat \<times> nat \<times> nat" where
  "plus_days 0 dt = dt"
| "plus_days (Suc n) dt = plus_days n (next_day dt)"

definition zero_pad :: "nat \<Rightarrow> nat \<Rightarrow> string" where
  "zero_pad w n = replicate (w - length (digits10 n)) (CHR ''0'') @ digits10 n"

definition iso_date :: "nat \<times> nat \<times> nat \<Rightarrow> string" where
  "iso_date dt =
     (case dt of (y, m, d) \<Rightarrow> zero_pad 4 y @ ''-'' @ zero_pad 2 m @ ''-'' @ zero_pad 2 d)"

definition utc_calendar :: "nat \<times> nat \<times> nat \<Rightarrow> nat \<Rightarrow> string option" where
  "utc_calendar today d =
     (let dt = plus_days d today in if 9999 < fst dt then None else Some (iso_date dt))"

definition is_digit :: "char \<Rightarrow> bool" where
  "is_digit c \<longleftrightarrow> CHR ''0'' \<le> c \<and> c \<le> CHR ''9''"

definition iso_month :: "string option \<Rightarrow> string option" where
  "iso_month t =
     (case t of
        None \<Rightarrow> None
      | Some s \<Rightarrow>
          if length s = 10 \<and> list_all is_digit (take 4 s) \<and> s ! 4 = CHR ''-''
             \<and> list_all is_digit (take 2 (drop 5 s)) \<and> s ! 7 = CHR ''-''
             \<and> list_all is_digit (drop 8 s)
          then Some (take 7 s) else None)"

subsection \<open>Example stores\<close>

text \<open>
  The application and the interview of the module's \<open>main\<close>, a second application with
  its interview, and the stores that the examples below run on.
\<close>

definition google_application :: JobApplication where
  "google_application =
     JobApplication_default
       \<lparr>app_id := Some 1, company := Some ''Google'', position := Some ''Senior Data Engineer'',
        application_date := Some ''2024-01-15'', status := Some ''applied'',
        priority := Some ''high'', follow_up_date := Some ''2024-01-22''\<rparr>"

definition meta_application :: JobApplication where
  "meta_application =
     JobApplication_default
       \<lparr>app_id := Some 2, company := Some ''Meta'', position := Some ''Data Engineer'',
        application_date := Some ''2024-02-01'', status := Some ''rejected''\<rparr>"

definition google_interview :: Interview where
  "google_interview =
     Interview_default
       \<lparr>iv_id := Some 1, application_id := 1, iv_interview_date := Some ''2024-01-25'',
        iv_interview_type := Some ''phone''\<rparr>"

definition meta_interview :: Interview where
  "meta_interview =
     Interview_default
       \<lparr>iv_id := Some 2, application_id := 2, iv_interview_date := Some ''2024-02-10'',
        iv_interview_type := Some ''video''\<rparr>"

definition sample_store :: store where
  "sample_store =
     \<lparr>accessible = True, job_applications = [google_application, meta_application],
      interviews = [google_interview, meta_interview], app_sequence = 2, iv_sequence = 2\<rparr>"

text \<open>A store in which an application holds the identifier 0.\<close>

definition zero_store :: store where
  "zero_store =
     \<lparr>accessible = True, job_applications = [google_application\<lparr>app_id := Some 0\<rparr>],
      interviews = [meta_interview], app_sequence = 1, iv_sequence = 2\<rparr>"

text \<open>The example store when the database file cannot be opened.\<close>

definition down_store :: store where
  "down_store = sample_store\<lparr>accessible := False\<rparr>"

subsection \<open>Sessions\<close>

text \<open>
  A session is a sequence of calls on one tracker. \<open>session\<close> runs them in order and
  collects the identifiers that the successful \<open>add_application\<close> calls return; a call
  that raises leaves the database as it was (the transaction is rolled back) and the
  session goes on.
\<close>

datatype command =
    AddApplication string JobApplication
  | AddInterview string Interview
  | UpdateApplication string int "(string \<times> py_value) list"
  | DeleteApplication int

fun session :: "store \<Rightarrow> command list \<Rightarrow> int list \<times> store" where
  "session st [] = ([], st)"
| "session st (AddApplication now a # cs) =
     (case add_application now st a of
        Inl e \<Rightarrow> session st cs
      | Inr (i, st') \<Rightarrow> (case session st' cs of (ids, st'') \<Rightarrow> (i # ids, st'')))"
| "session st (AddInterview now v # cs) =
     (case add_interview now st v of
        Inl e \<Rightarrow> session st cs
      | Inr (i, st') \<Rightarrow> session st' cs)"
| "session st (UpdateApplication now aid updates # cs) =
     (case update_application now st aid updates of
        Inl e \<Rightarrow> session st cs
      | Inr (b, st') \<Rightarrow> session st' cs)"
| "session st (DeleteApplication aid # cs) =
     (case delete_application st aid of
        Inl e \<Rightarrow> session st cs
      | Inr (b, st') \<Rightarrow> session st' cs)"

text \<open>The applications that count as answered in the response rate.\<close>

definition responded :: "JobApplication \<Rightarrow> bool" where
  "responded a \<longleftrightarrow>
     status a = Some ''interview_scheduled'' \<or> status a = Some ''rejected''
     \<or> status a = Some ''offer_received''"

text \<open>A store of twenty-one applications to eleven companies.\<close>

definition application_at :: "int \<Rightarrow> string \<Rightarrow> JobApplication" where
  "application_at i c =
     JobApplication_default
       \<lparr>app_id := Some i, company := Some c, position := Some ''Data Engineer'',
        application_date := Some ''2024-03-01''\<rparr>"

definition crowded_store :: store where
  "crowded_store =
     \<lparr>accessible = True,
      job_applications =
        [application_at 1 ''A'', application_at 2 ''A'', application_at 3 ''B'',
         application_at 4 ''B'', application_at 5 ''C'', application_at 6 ''C'',
         application_at 7 ''D'', application_at 8 ''D'', application_at 9 ''E'',
         application_at 10 ''E'', application_at 11 ''F'', application_at 12 ''F'',
         application_at 13 ''G'', application_at 14 ''G'', application_at 15 ''H'',
         application_at 16 ''H'', application_at 17 ''I'', application_at 18 ''I'',
         application_at 19 ''J'', application_at 20 ''J'', application_at 21 ''K''],
      interviews = [], app_sequence = 21, iv_sequence = 0\<rparr>"

text \<open>Two applications to Meta and one to Google.\<close>

definition scenario_store :: store where
  "scenario_store =
     \<lparr>accessible = True,
      job_applications =
        [application_at 1 ''Meta'', application_at 2 ''Meta'', application_at 3 ''Google''],
      interviews = [], app_sequence = 3, iv_sequence = 0\<rparr>"

section \<open>Properties\<close>

subsection \<open>Deleting an application (C1)\<close>

lemma order_by_desc_Nil [simp]: "order_by_desc key [] = []"
  by (simp add: order_by_desc_def)

lemma find_filter_neg: "find P (filter (\<lambda>x. \<not> P x) xs) = None"
  by (simp add: find_None_iff)

lemma filter_removes_some:
  "length (filter P xs) < length xs \<longleftrightarrow> (\<exists>x\<in>set xs. \<not> P x)"
proof (induction xs)
  case Nil
  then show ?case by simp
next
  case (Cons x xs)
  have "length (filter P xs) \<le> length xs" by simp
  with Cons show ?case by (auto simp: less_Suc_eq_le)
qed

text \<open>
  C1, as amended. For every identifier other than 0, \<open>delete_application\<close> returns
  without raising, and afterwards \<open>get_application\<close> for that identifier returns \<open>None\<close>
  and \<open>get_interviews\<close> for it returns the empty list. When the database is accessible
  and the identifier fits in 64 bits, the call removes exactly the application with that
  identifier and exactly the interviews whose \<open>application_id\<close> is that identifier, and it
  returns \<open>True\<close> exactly when such an application was stored.
\<close>

theorem delete_application_cascade:
  assumes "aid \<noteq> 0"
  shows "\<exists>b st'. delete_application st aid = Inr (b, st')
      \<and> get_application st' aid = Inr None
      \<and> get_interviews st' (Some aid) = Inr []
      \<and> (accessible st \<and> fits_int64 aid \<longrightarrow>
           job_applications st' = filter (\<lambda>a. app_id a \<noteq> Some aid) (job_applications st)
         \<and> interviews st' = filter (\<lambda>v. application_id v \<noteq> aid) (interviews st)
         \<and> (b \<longleftrightarrow> (\<exists>a\<in>set (job_applications st). app_id a = Some aid)))"
proof (cases "accessible st \<and> fits_int64 aid")
  case False
  then have del: "delete_application st aid = Inr (False, st)"
    by (auto simp: delete_application_def delete_application_try_def)
  from False have "get_application st aid = Inr None"
    by (auto simp: get_application_def get_application_try_def)
  moreover from False assms have "get_interviews st (Some aid) = Inr []"
    by (auto simp: get_interviews_def get_interviews_try_def)
  ultimately show ?thesis using del False by auto
next
  case True
  define st' where
    "st' = st\<lparr>job_applications := filter (\<lambda>a. app_id a \<noteq> Some aid) (job_applications st),
              interviews := filter (\<lambda>v. application_id v \<noteq> aid) (interviews st)\<rparr>"
  define b where "b \<longleftrightarrow> (\<exists>a\<in>set (job_applications st). app_id a = Some aid)"
  from True have del: "delete_application st aid = Inr (b, st')"
    unfolding delete_application_def delete_application_try_def st'_def b_def
    by (simp add: Let_def filter_removes_some)
  have acc: "accessible st'" using True by (simp add: st'_def)
  have "find (\<lambda>a. app_id a = Some aid) (job_applications st') = None"
    by (simp add: st'_def find_None_iff)
  with acc True have ga: "get_application st' aid = Inr None"
    by (simp add: get_application_def get_application_try_def)
  have "filter (\<lambda>v. application_id v = aid) (interviews st') = []"
    by (simp add: st'_def filter_empty_conv)
  with acc True assms have gi: "get_interviews st' (Some aid) = Inr []"
    by (simp add: get_interviews_def get_interviews_try_def)
  show ?thesis using del ga gi by (auto simp: st'_def b_def)
qed

theorem delete_application_cascade_witness:
  "(1::int) \<noteq> 0 \<and> accessible sample_store \<and> fits_int64 1
   \<and> (\<exists>st'. delete_application sample_store 1 = Inr (True, st')
        \<and> get_application st' 1 = Inr None
        \<and> get_interviews st' (Some 1) = Inr []
        \<and> job_applications st' = [meta_application]
        \<and> interviews st' = [meta_interview])"
  using delete_application_cascade [of 1 sample_store]
  by (auto simp: sample_store_def fits_int64_def google_application_def meta_application_def
      google_interview_def meta_interview_def)

text \<open>
  C1 as stated fails for the identifier 0: \<open>get_interviews(0)\<close> runs the statement
  without a \<open>WHERE\<close> clause, so after the application 0 is deleted it still returns the
  interviews of the other applications.
\<close>

theorem delete_application_zero_counterexample:
  "delete_application zero_store 0 = Inr (True, zero_store\<lparr>job_applications := []\<rparr>)
   \<and> get_interviews (zero_store\<lparr>job_applications := []\<rparr>) (Some 0) = Inr [meta_interview]"
  by (simp add: delete_application_def delete_application_try_def zero_store_def
      get_interviews_def get_interviews_try_def fits_int64_def order_by_desc_def
      google_application_def meta_interview_def Interview_default_def)

subsection \<open>Arguments that Python counts as false (C10)\<close>

lemma mset_order_by_desc [simp]: "mset (order_by_desc key rows) = mset rows"
  by (simp add: order_by_desc_def)

lemma set_order_by_desc [simp]: "set (order_by_desc key rows) = set rows"
  by (simp add: order_by_desc_def)

lemma length_order_by_desc [simp]: "length (order_by_desc key rows) = length rows"
  by (simp add: order_by_desc_def)

lemma sql_limit_all:
  "n < 0 \<or> int (length rows) \<le> n \<Longrightarrow> sql_limit n rows = rows"
  by (auto simp: sql_limit_def)

text \<open>
  C10. \<open>get_applications\<close> with the empty string as status filter is
  \<open>get_applications\<close> without a status filter, and \<open>get_interviews(0)\<close> is
  \<open>get_interviews()\<close>: on an accessible database it returns every stored interview,
  whatever its \<open>application_id\<close>, and \<open>get_applications\<close> with the empty status filter,
  no company filter and a limit that does not cut returns every stored application,
  whatever its status.
\<close>

theorem falsy_arguments_select_everything:
  "get_applications st (Some []) company_filter limit
     = get_applications st None company_filter limit
   \<and> get_interviews st (Some 0) = get_interviews st None
   \<and> (accessible st \<longrightarrow>
        (\<exists>ivs. get_interviews st (Some 0) = Inr ivs \<and> mset ivs = mset (interviews st)))
   \<and> (accessible st \<and> fits_int64 limit
        \<and> (limit < 0 \<or> int (length (job_applications st)) \<le> limit) \<longrightarrow>
        (\<exists>apps. get_applications st (Some []) None limit = Inr apps
           \<and> mset apps = mset (job_applications st)))"
proof (intro conjI impI)
  show "get_applications st (Some []) company_filter limit
     = get_applications st None company_filter limit"
    by (simp add: get_applications_def get_applications_try_def)
  show "get_interviews st (Some 0) = get_interviews st None"
    by (simp add: get_interviews_def get_interviews_try_def)
  show "\<exists>ivs. get_interviews st (Some 0) = Inr ivs \<and> mset ivs = mset (interviews st)"
    if "accessible st"
    using that by (simp add: get_interviews_def get_interviews_try_def)
  show "\<exists>apps. get_applications st (Some []) None limit = Inr apps
           \<and> mset apps = mset (job_applications st)"
    if "accessible st \<and> fits_int64 limit
        \<and> (limit < 0 \<or> int (length (job_applications st)) \<le> limit)"
    using that by (auto simp: get_applications_def get_applications_try_def sql_limit_all)
qed

lemma sample_interviews_sorted:
  "order_by_desc iv_interview_date [google_interview, meta_interview]
     = [meta_interview, google_interview]"
  by code_simp

lemma sample_applications_sorted:
  "order_by_desc application_date [google_application, meta_application]
     = [meta_application, google_application]"
  by code_simp

theorem falsy_arguments_select_everything_witness:
  "accessible sample_store \<and> fits_int64 50
   \<and> int (length (job_applications sample_store)) \<le> 50
   \<and> get_interviews sample_store (Some 0) = Inr [meta_interview, google_interview]
   \<and> get_interviews sample_store None = Inr [meta_interview, google_interview]
   \<and> get_applications sample_store (Some []) None 50
        = Inr [meta_application, google_application]
   \<and> get_applications sample_store None None 50
        = Inr [meta_application, google_application]"
proof -
  have a: "accessible sample_store" and f: "fits_int64 50"
    and l: "int (length (job_applications sample_store)) \<le> 50"
    by (simp_all add: sample_store_def fits_int64_def)
  have i: "get_interviews sample_store None = Inr [meta_interview, google_interview]"
    by (simp add: get_interviews_def get_interviews_try_def sample_store_def
        sample_interviews_sorted)
  have g: "get_applications sample_store None None 50
        = Inr [meta_application, google_application]"
    by (simp add: get_applications_def get_applications_try_def sample_store_def
        fits_int64_def sql_limit_def sample_applications_sorted)
  from falsy_arguments_select_everything [of sample_store None 50] a f l i g
  show ?thesis by simp
qed

subsection \<open>Exceptions at the boundary of the module (C5)\<close>

text \<open>
  C5, as amended. The seven methods \<open>get_application\<close>, \<open>get_applications\<close>,
  \<open>update_application\<close>, \<open>delete_application\<close>, \<open>get_interviews\<close>, \<open>get_statistics\<close> and
  \<open>get_follow_up_reminders\<close> never raise: an exception of their body becomes \<open>None\<close>, the
  empty list, \<open>False\<close> (with the database unchanged) or the empty dictionary. The three
  methods \<open>init_database\<close>, \<open>add_application\<close> and \<open>add_interview\<close> log the exception of
  their body and raise it again.
\<close>

theorem exceptions_caught_or_raised_again:
  "(\<exists>r. get_application st aid = Inr r)
   \<and> (\<exists>r. get_applications st status_filter company_filter limit = Inr r)
   \<and> (\<exists>r. update_application now st aid updates = Inr r)
   \<and> (\<exists>r. delete_application st aid = Inr r)
   \<and> (\<exists>r. get_interviews st oaid = Inr r)
   \<and> (\<exists>r. get_statistics month_of st = Inr r)
   \<and> (\<exists>r. get_follow_up_reminders cal st days_ahead = Inr r)
   \<and> (get_application_try st aid = Inl e \<longrightarrow> get_application st aid = Inr None)
   \<and> (get_applications_try st status_filter company_filter limit = Inl e \<longrightarrow>
        get_applications st status_filter company_filter limit = Inr [])
   \<and> (update_application_try now st aid updates = Inl e \<longrightarrow>
        update_application now st aid updates = Inr (False, st))
   \<and> (delete_application_try st aid = Inl e \<longrightarrow>
        delete_application st aid = Inr (False, st))
   \<and> (get_interviews_try st oaid = Inl e \<longrightarrow> get_interviews st oaid = Inr [])
   \<and> (get_statistics_try month_of st = Inl e \<longrightarrow> get_statistics month_of st = Inr None)
   \<and> (get_follow_up_reminders_try cal st days_ahead = Inl e \<longrightarrow>
        get_follow_up_reminders cal st days_ahead = Inr [])
   \<and> (init_database_try st = Inl e \<longrightarrow> init_database st = Inl e)
   \<and> (add_application_try now st application = Inl e \<longrightarrow>
        add_application now st application = Inl e)
   \<and> (add_interview_try now st interview = Inl e \<longrightarrow>
        add_interview now st interview = Inl e)"
proof -
  have 1: "\<exists>r. get_application st aid = Inr r"
    by (cases "get_application_try st aid") (simp_all add: get_application_def)
  have 2: "\<exists>r. get_applications st status_filter company_filter limit = Inr r"
    by (cases "get_applications_try st status_filter company_filter limit")
      (simp_all add: get_applications_def)
  have 3: "\<exists>r. update_application now st aid updates = Inr r"
    by (cases "update_application_try now st aid updates")
      (auto simp: update_application_def)
  have 4: "\<exists>r. delete_application st aid = Inr r"
    by (cases "delete_application_try st aid") (auto simp: delete_application_def)
  have 5: "\<exists>r. get_interviews st oaid = Inr r"
    by (cases "get_interviews_try st oaid") (simp_all add: get_interviews_def)
  have 6: "\<exists>r. get_statistics month_of st = Inr r"
    by (cases "get_statistics_try month_of st") (simp_all add: get_statistics_def)
  have 7: "\<exists>r. get_follow_up_reminders cal st days_ahead = Inr r"
    by (cases "get_follow_up_reminders_try cal st days_ahead")
      (simp_all add: get_follow_up_reminders_def)
  show ?thesis
    using 1 2 3 4 5 6 7
    by (simp add: get_application_def get_applications_def update_application_def
        delete_application_def get_interviews_def get_statistics_def
        get_follow_up_reminders_def init_database_def add_application_def
        add_interview_def)
qed

theorem exceptions_caught_or_raised_again_witness:
  "get_application_try down_store 1 = Inl OperationalError
   \<and> get_application down_store 1 = Inr None
   \<and> get_applications_try down_store None None 50 = Inl OperationalError
   \<and> get_applications down_store None None 50 = Inr []
   \<and> update_application_try ''2024-01-16T09:00:00'' down_store 1 [] = Inl OperationalError
   \<and> update_application ''2024-01-16T09:00:00'' down_store 1 [] = Inr (False, down_store)
   \<and> delete_application_try down_store 1 = Inl OperationalError
   \<and> delete_application down_store 1 = Inr (False, down_store)
   \<and> get_interviews_try down_store None = Inl OperationalError
   \<and> get_interviews down_store None = Inr []
   \<and> get_statistics_try iso_month down_store = Inl OperationalError
   \<and> get_statistics iso_month down_store = Inr None
   \<and> get_follow_up_reminders_try (utc_calendar (2024, 1, 16)) down_store 7
        = Inl OperationalError
   \<and> get_follow_up_reminders (utc_calendar (2024, 1, 16)) down_store 7 = Inr []
   \<and> init_database_try down_store = Inl OperationalError
   \<and> init_database down_store = Inl OperationalError
   \<and> add_application_try ''2024-01-16T09:00:00'' down_store google_application
        = Inl OperationalError
   \<and> add_application ''2024-01-16T09:00:00'' down_store google_application
        = Inl OperationalError
   \<and> add_interview_try ''2024-01-16T09:00:00'' down_store google_interview
        = Inl OperationalError
   \<and> add_interview ''2024-01-16T09:00:00'' down_store google_interview
        = Inl OperationalError"
proof -
  have d: "\<not> accessible down_store"
    by (simp add: down_store_def)
  have t: "get_application_try down_store 1 = Inl OperationalError"
    "get_applications_try down_store None None 50 = Inl OperationalError"
    "update_application_try ''2024-01-16T09:00:00'' down_store 1 [] = Inl OperationalError"
    "delete_application_try down_store 1 = Inl OperationalError"
    "get_interviews_try down_store None = Inl OperationalError"
    "get_statistics_try iso_month down_store = Inl OperationalError"
    "get_follow_up_reminders_try (utc_calendar (2024, 1, 16)) down_store 7
        = Inl OperationalError"
    "init_database_try down_store = Inl OperationalError"
    "add_application_try ''2024-01-16T09:00:00'' down_store google_application
        = Inl OperationalError"
    "add_interview_try ''2024-01-16T09:00:00'' down_store google_interview
        = Inl OperationalError"
    using d
    by (simp_all add: get_application_try_def get_applications_try_def
        update_application_try_def delete_application_try_def get_interviews_try_def
        get_statistics_try_def get_follow_up_reminders_try_def init_database_try_def
        add_application_try_def add_interview_try_def)
  from exceptions_caught_or_raised_again
    [of down_store 1 None None 50 "''2024-01-16T09:00:00''" "[]" None iso_month
      "utc_calendar (2024, 1, 16)" 7 OperationalError google_application google_interview]
    t
  show ?thesis by simp
qed

text \<open>
  C5 as stated fails for the three methods that raise again: on a database that cannot
  be opened, and on an application without a company, \<open>add_application\<close> raises, and so
  do \<open>add_interview\<close> and \<open>init_database\<close>.
\<close>

theorem add_application_raises_counterexample:
  "add_application ''2024-01-16T09:00:00'' down_store google_application
     = Inl OperationalError
   \<and> add_application ''2024-01-16T09:00:00'' sample_store
        (google_application\<lparr>company := None\<rparr>) = Inl IntegrityError
   \<and> add_interview ''2024-01-16T09:00:00'' down_store google_interview
        = Inl OperationalError
   \<and> init_database down_store = Inl OperationalError"
  by (simp add: add_application_def add_application_try_def add_interview_def
      add_interview_try_def init_database_def init_database_try_def down_store_def
      sample_store_def new_rowid_def List.map_filter_def google_application_def
      meta_application_def)

subsection \<open>Identifiers of new applications (C6)\<close>

lemma fold_max_ge_init: "(seq::int) \<le> fold max ids seq"
proof (induction ids arbitrary: seq)
  case Nil
  then show ?case by simp
next
  case (Cons x xs)
  have "seq \<le> max x seq" by simp
  also have "\<dots> \<le> fold max xs (max x seq)" by (rule Cons.IH)
  finally show ?case by simp
qed

lemma fold_max_ge_member: "x \<in> set ids \<Longrightarrow> (x::int) \<le> fold max ids seq"
proof (induction ids arbitrary: seq)
  case Nil
  then show ?case by simp
next
  case (Cons y ys)
  show ?case
  proof (cases "x = y")
    case True
    have "x \<le> max y seq" using True by simp
    also have "\<dots> \<le> fold max ys (max y seq)" by (rule fold_max_ge_init)
    finally show ?thesis by simp
  next
    case False
    with Cons.prems have "x \<in> set ys" by simp
    then show ?thesis using Cons.IH by simp
  qed
qed

lemma new_rowid_fresh:
  assumes "new_rowid seq ids = Inr r"
  shows "seq < r" and "\<forall>x\<in>set ids. x < r" and "r < 2 ^ 63"
proof -
  from assms have r: "r = fold max ids seq + 1" and small: "fold max ids seq < 2 ^ 63 - 1"
    by (auto simp: new_rowid_def Let_def split: if_splits)
  show "seq < r" using fold_max_ge_init [of seq ids] r by simp
  show "\<forall>x\<in>set ids. x < r" using fold_max_ge_member [of _ ids seq] r by fastforce
  show "r < 2 ^ 63" using r small by simp
qed

lemma find_snoc:
  "find P (xs @ [x]) = (case find P xs of None \<Rightarrow> (if P x then Some x else None) | Some y \<Rightarrow> Some y)"
  by (induction xs) auto

lemma add_application_result:
  assumes "add_application now st a = Inr (i, st')"
  shows "accessible st"
    and "new_rowid (app_sequence st) (List.map_filter app_id (job_applications st)) = Inr i"
    and "st' = st\<lparr>job_applications := job_applications st @
                  [a\<lparr>app_id := Some i, created_at := Some now, updated_at := Some now\<rparr>],
                app_sequence := i\<rparr>"
  using assms
  by (auto simp: add_application_def add_application_try_def
      split: sum.splits if_splits)

lemma add_application_sequence:
  assumes "add_application now st a = Inr (i, st')"
  shows "app_sequence st < i" and "app_sequence st' = i"
  using add_application_result [OF assms] new_rowid_fresh(1) by auto

lemma add_interview_sequence:
  "add_interview now st v = Inr (i, st') \<Longrightarrow> app_sequence st' = app_sequence st"
  by (auto simp: add_interview_def add_interview_try_def split: sum.splits if_splits)

lemma update_application_sequence:
  "update_application now st aid updates = Inr (b, st') \<Longrightarrow> app_sequence st' = app_sequence st"
  by (auto simp: update_application_def update_application_try_def Let_def
      split: sum.splits if_splits option.splits)

lemma delete_application_sequence:
  "delete_application st aid = Inr (b, st') \<Longrightarrow> app_sequence st' = app_sequence st"
  by (auto simp: delete_application_def delete_application_try_def Let_def
      split: sum.splits if_splits)

lemma session_identifiers:
  "sorted_wrt (<) (fst (session st cs)) \<and> (\<forall>i\<in>set (fst (session st cs)). app_sequence st < i)"
proof (induction st cs rule: session.induct)
  case (1 st)
  then show ?case by simp
next
  case (2 st now a cs)
  show ?case
  proof (cases "add_application now st a")
    case (Inl e)
    with 2(1) show ?thesis by simp
  next
    case (Inr r)
    obtain i st' where r: "r = (i, st')" by (cases r)
    from Inr r have add: "add_application now st a = Inr (i, st')" by simp
    from 2(2) [OF Inr r [symmetric]]
    have ih: "sorted_wrt (<) (fst (session st' cs))"
      "\<forall>j\<in>set (fst (session st' cs)). app_sequence st' < j" by simp_all
    from add_application_sequence [OF add]
    have "app_sequence st < i" "app_sequence st' = i" by simp_all
    with ih add show ?thesis by (fastforce split: prod.splits)
  qed
next
  case (3 st now v cs)
  show ?case
  proof (cases "add_interview now st v")
    case (Inl e)
    with 3(1) show ?thesis by simp
  next
    case (Inr r)
    obtain i st' where r: "r = (i, st')" by (cases r)
    from Inr r have call: "add_interview now st v = Inr (i, st')" by simp
    from 3(2) [OF Inr r [symmetric]] add_interview_sequence [OF call] call
    show ?thesis by simp
  qed
next
  case (4 st now aid updates cs)
  show ?case
  proof (cases "update_application now st aid updates")
    case (Inl e)
    with 4(1) show ?thesis by simp
  next
    case (Inr r)
    obtain b st' where r: "r = (b, st')" by (cases r)
    from Inr r have call: "update_application now st aid updates = Inr (b, st')" by simp
    from 4(2) [OF Inr r [symmetric]] update_application_sequence [OF call] call
    show ?thesis by simp
  qed
next
  case (5 st aid cs)
  show ?case
  proof (cases "delete_application st aid")
    case (Inl e)
    with 5(1) show ?thesis by simp
  next
    case (Inr r)
    obtain b st' where r: "r = (b, st')" by (cases r)
    from Inr r have call: "delete_application st aid = Inr (b, st')" by simp
    from 5(2) [OF Inr r [symmetric]] delete_application_sequence [OF call] call
    show ?thesis by simp
  qed
qed

lemma map_filter_member: "r \<in> set rows \<Longrightarrow> app_id r = Some j \<Longrightarrow> j \<in> set (List.map_filter app_id rows)"
  by (force simp: List.map_filter_def)

text \<open>
  C6. A successful \<open>add_application\<close> returns an identifier that no stored application
  holds and that is larger than the counter of the table, and \<open>get_application\<close> for it then
  returns the new record; in every session, whatever other calls lie in between, the
  identifiers returned by the successful \<open>add_application\<close> calls strictly increase, so
  they are distinct and non-decreasing.
\<close>

theorem add_application_identifiers:
  "(add_application now st a = Inr (i, st1) \<and> fits_int64 (app_sequence st) \<longrightarrow>
      app_sequence st < i
      \<and> (\<forall>r\<in>set (job_applications st). app_id r \<noteq> Some i)
      \<and> get_application st1 i
          = Inr (Some (a\<lparr>app_id := Some i, created_at := Some now, updated_at := Some now\<rparr>)))
   \<and> sorted_wrt (<) (fst (session st cmds))
   \<and> distinct (fst (session st cmds))
   \<and> sorted (fst (session st cmds))"
proof (intro conjI impI)
  assume h: "add_application now st a = Inr (i, st1) \<and> fits_int64 (app_sequence st)"
  then have add: "add_application now st a = Inr (i, st1)"
    and fits: "fits_int64 (app_sequence st)" by simp_all
  note res = add_application_result [OF add]
  note fresh = new_rowid_fresh [OF res(2)]
  show lt: "app_sequence st < i" by (rule fresh(1))
  show unused: "\<forall>r\<in>set (job_applications st). app_id r \<noteq> Some i"
    using fresh(2) map_filter_member by fastforce
  have "fits_int64 i" using fits lt fresh(3) by (simp add: fits_int64_def)
  moreover have "find (\<lambda>r. app_id r = Some i) (job_applications st) = None"
    using unused by (simp add: find_None_iff)
  ultimately show "get_application st1 i
          = Inr (Some (a\<lparr>app_id := Some i, created_at := Some now, updated_at := Some now\<rparr>))"
    using res(1) res(3) by (simp add: get_application_def get_application_try_def find_snoc)
next
  show s: "sorted_wrt (<) (fst (session st cmds))"
    using session_identifiers by blast
  then show "distinct (fst (session st cmds))"
    by (simp add: strict_sorted_iff)
  from s show "sorted (fst (session st cmds))"
    by (simp add: strict_sorted_iff)
qed

lemma sample_session_identifiers:
  "fst (session empty_store
     [AddApplication ''2024-01-15T09:00:00'' google_application,
      AddApplication ''2024-02-01T09:00:00'' meta_application,
      DeleteApplication 2,
      AddApplication ''2024-02-02T09:00:00'' meta_application]) = [1, 2, 3]"
  by code_simp

lemma sample_first_identifier:
  "add_application ''2024-01-15T09:00:00'' empty_store google_application
     = Inr (1, empty_store
         \<lparr>job_applications :=
            [google_application\<lparr>app_id := Some 1, created_at := Some ''2024-01-15T09:00:00'',
               updated_at := Some ''2024-01-15T09:00:00''\<rparr>],
          app_sequence := 1\<rparr>)"
  by (simp add: add_application_def add_application_try_def empty_store_def new_rowid_def
      List.map_filter_def google_application_def JobApplication_default_def)

theorem add_application_identifiers_witness:
  "fits_int64 (app_sequence empty_store)
   \<and> add_application ''2024-01-15T09:00:00'' empty_store google_application
       = Inr (1, empty_store
           \<lparr>job_applications :=
              [google_application\<lparr>app_id := Some 1, created_at := Some ''2024-01-15T09:00:00'',
                 updated_at := Some ''2024-01-15T09:00:00''\<rparr>],
            app_sequence := 1\<rparr>)
   \<and> get_application
         (empty_store
           \<lparr>job_applications :=
              [google_application\<lparr>app_id := Some 1, created_at := Some ''2024-01-15T09:00:00'',
                 updated_at := Some ''2024-01-15T09:00:00''\<rparr>],
            app_sequence := 1\<rparr>) 1
       = Inr (Some (google_application\<lparr>app_id := Some 1,
           created_at := Some ''2024-01-15T09:00:00'',
           updated_at := Some ''2024-01-15T09:00:00''\<rparr>))
   \<and> fst (session empty_store
        [AddApplication ''2024-01-15T09:00:00'' google_application,
         AddApplication ''2024-02-01T09:00:00'' meta_application,
         DeleteApplication 2,
         AddApplication ''2024-02-02T09:00:00'' meta_application]) = [1, 2, 3]
   \<and> sorted_wrt (<) [1, 2, 3 :: int]"
proof -
  have f: "fits_int64 (app_sequence empty_store)"
    by (simp add: empty_store_def fits_int64_def)
  from add_application_identifiers
    [of "''2024-01-15T09:00:00''" empty_store google_application 1 _
      "[AddApplication ''2024-01-15T09:00:00'' google_application,
        AddApplication ''2024-02-01T09:00:00'' meta_application,
        DeleteApplication 2,
        AddApplication ''2024-02-02T09:00:00'' meta_application]"]
    f sample_first_identifier sample_session_identifiers
  show ?thesis by simp
qed

subsection \<open>Partial update: the flag and the timestamp (C7)\<close>






















subsection \<open>Partial update: what stays as it was (C8)\<close>




subsection \<open>Statistics: the response rate (C2)\<close>

lemma group_count_keys:
  "map fst (group_count key rows) = sort (remdups (map key rows))"
  by (simp add: group_count_def comp_def)

lemma group_count_distinct: "distinct (map fst (group_count key rows))"
  by (simp add: group_count_keys)

lemma group_count_key_set: "fst ` set (group_count key rows) = key ` set rows"
proof -
  have "fst ` set (group_count key rows) = set (map fst (group_count key rows))" by simp
  also have "\<dots> = key ` set rows" by (simp only: group_count_keys) simp
  finally show ?thesis .
qed

lemma group_count_length: "length (group_count key rows) = card (key ` set rows)"
proof -
  have "length (group_count key rows) = length (remdups (map key rows))"
    by (simp add: group_count_def)
  then show ?thesis by (simp add: length_remdups_card_conv)
qed

lemma group_count_entry:
  assumes "(k, n) \<in> set (group_count key rows)"
  shows "k \<in> key ` set rows" and "n = length (filter (\<lambda>r. key r = k) rows)" and "0 < n"
proof -
  from assms show k: "k \<in> key ` set rows" and n: "n = length (filter (\<lambda>r. key r = k) rows)"
    by (auto simp: group_count_def)
  from k obtain r where "r \<in> set rows" "key r = k" by auto
  then have "filter (\<lambda>r. key r = k) rows \<noteq> []" by (auto simp: filter_empty_conv)
  with n show "0 < n" by simp
qed

lemma dict_get_group_count:
  "dict_get (group_count key rows) k 0 = length (filter (\<lambda>r. key r = k) rows)"
proof -
  let ?count = "\<lambda>k. length (filter (\<lambda>r. key r = k) rows)"
  have "map_of (rev (group_count key rows)) k
      = map_of (map (\<lambda>k. (k, ?count k)) (rev (sort (remdups (map key rows))))) k"
    by (simp add: group_count_def rev_map)
  also have "\<dots> = (if k \<in> key ` set rows then Some (?count k) else None)"
    by (simp add: map_of_map_restrict restrict_map_def)
  finally have m: "map_of (rev (group_count key rows)) k
      = (if k \<in> key ` set rows then Some (?count k) else None)" .
  show ?thesis
  proof (cases "k \<in> key ` set rows")
    case True
    with m show ?thesis by (simp add: dict_get_def)
  next
    case False
    then have "filter (\<lambda>r. key r = k) rows = []" by (auto simp: filter_empty_conv)
    with m False show ?thesis by (simp add: dict_get_def)
  qed
qed

lemma length_filter_three:
  assumes "a \<noteq> b" "a \<noteq> c" "b \<noteq> c"
  shows "length (filter (\<lambda>r. f r = a) rows) + length (filter (\<lambda>r. f r = b) rows)
       + length (filter (\<lambda>r. f r = c) rows)
     = length (filter (\<lambda>r. f r = a \<or> f r = b \<or> f r = c) rows)"
  using assms by (induction rows) auto

lemma py_round2_zero: "py_round2 0 = 0"
  by (simp add: py_round2_def round_half_even_def)

lemma get_statistics_accessible:
  assumes "accessible st"
  shows "get_statistics month_of st =
    Inr (Some
      \<lparr>total_applications = length (job_applications st),
       status_counts = group_count status (job_applications st),
       company_counts = take 10 (order_by_desc snd (group_count company (job_applications st))),
       monthly_counts =
         take 12 (rev (group_count (\<lambda>a. month_of (application_date a)) (job_applications st))),
       total_interviews = length (interviews st),
       response_rate =
         (if job_applications st = [] then 0
          else py_round2 (of_nat (length (filter responded (job_applications st)))
                 / of_nat (length (job_applications st)) * 100))\<rparr>)"
proof -
  have three: "dict_get (group_count status (job_applications st)) (Some ''interview_scheduled'') 0
      + dict_get (group_count status (job_applications st)) (Some ''rejected'') 0
      + dict_get (group_count status (job_applications st)) (Some ''offer_received'') 0
    = length (filter responded (job_applications st))"
    unfolding dict_get_group_count responded_def
    by (rule length_filter_three) simp_all
  show ?thesis
  proof (cases "job_applications st = []")
    case True
    with assms show ?thesis
      by (simp add: get_statistics_def get_statistics_try_def sql_limit_def group_count_def
          py_round2_zero)
  next
    case False
    then have "0 < length (job_applications st)" by simp
    with assms False three show ?thesis
      by (simp add: get_statistics_def get_statistics_try_def sql_limit_def py_truediv_def
          Let_def)
  qed
qed




subsection \<open>Statistics: the counts by company and by month (C9)\<close>

lemma order_by_desc_sorted: "sorted_wrt (\<lambda>x y. key y \<le> key x) (order_by_desc key rows)"
proof -
  have "sorted (map key (sort_key key (rev rows)))" by simp
  then have "sorted_wrt (\<lambda>x y. key x \<le> key y) (sort_key key (rev rows))"
    by (simp only: sorted_map)
  then show ?thesis by (simp add: order_by_desc_def sorted_wrt_rev)
qed

lemma sorted_wrt_take_drop:
  assumes "sorted_wrt R xs" "x \<in> set (take n xs)" "y \<in> set (drop n xs)"
  shows "R x y"
proof -
  from assms(1) have "sorted_wrt R (take n xs @ drop n xs)" by simp
  with assms(2,3) show ?thesis unfolding sorted_wrt_append by blast
qed

lemma set_take_drop: "set xs = set (take n xs) \<union> set (drop n xs)"
  by (metis append_take_drop_id set_append)

lemma group_count_member:
  "k \<in> key ` set rows \<Longrightarrow> (k, length (filter (\<lambda>r. key r = k) rows)) \<in> set (group_count key rows)"
  by (auto simp: group_count_def)

lemma top_groups:
  fixes key :: "'a \<Rightarrow> 'k::linorder"
  defines "best \<equiv> \<lambda>n rows. take n (order_by_desc snd (group_count key rows))"
  shows "length (best n rows) = min n (card (key ` set rows))"
    and "e \<in> set (best n rows) \<Longrightarrow>
           fst e \<in> key ` set rows \<and> snd e = length (filter (\<lambda>r. key r = fst e) rows)"
    and "card (key ` set rows) \<le> n \<Longrightarrow> fst ` set (best n rows) = key ` set rows"
    and "k \<in> key ` set rows \<Longrightarrow> k \<notin> fst ` set (best n rows) \<Longrightarrow> e \<in> set (best n rows) \<Longrightarrow>
           length (filter (\<lambda>r. key r = k) rows) \<le> snd e"
proof -
  let ?G = "group_count key rows" and ?L = "order_by_desc snd (group_count key rows)"
  show "length (best n rows) = min n (card (key ` set rows))"
    by (simp add: best_def group_count_length min.commute)
  show "fst e \<in> key ` set rows \<and> snd e = length (filter (\<lambda>r. key r = fst e) rows)"
    if "e \<in> set (best n rows)"
  proof -
    from that have "e \<in> set ?G" unfolding best_def by (auto dest: in_set_takeD)
    then have "(fst e, snd e) \<in> set ?G" by simp
    from group_count_entry(1,2) [OF this] show ?thesis by simp
  qed
  show "fst ` set (best n rows) = key ` set rows" if "card (key ` set rows) \<le> n"
  proof -
    from that have "length ?L \<le> n" by (simp add: group_count_length)
    then have "best n rows = ?L" by (simp add: best_def)
    then show ?thesis by (simp add: group_count_key_set)
  qed
  show "length (filter (\<lambda>r. key r = k) rows) \<le> snd e"
    if k: "k \<in> key ` set rows" "k \<notin> fst ` set (best n rows)" and e: "e \<in> set (best n rows)"
  proof -
    let ?x = "(k, length (filter (\<lambda>r. key r = k) rows))"
    from group_count_member [OF k(1)] have "?x \<in> set ?L" by simp
    moreover from k(2) have "?x \<notin> set (take n ?L)" unfolding best_def by force
    ultimately have "?x \<in> set (drop n ?L)" using set_take_drop [of ?L n] by blast
    with sorted_wrt_take_drop [OF order_by_desc_sorted, of e n snd ?G ?x] e
    show ?thesis by (simp add: best_def)
  qed
qed

lemma latest_groups:
  fixes key :: "'a \<Rightarrow> 'k::linorder"
  defines "latest \<equiv> \<lambda>n rows. take n (rev (group_count key rows))"
  shows "length (latest n rows) = min n (card (key ` set rows))"
    and "e \<in> set (latest n rows) \<Longrightarrow>
           fst e \<in> key ` set rows \<and> snd e = length (filter (\<lambda>r. key r = fst e) rows)"
    and "card (key ` set rows) \<le> n \<Longrightarrow> fst ` set (latest n rows) = key ` set rows"
    and "k \<in> key ` set rows \<Longrightarrow> k \<notin> fst ` set (latest n rows) \<Longrightarrow> e \<in> set (latest n rows) \<Longrightarrow>
           k < fst e"
proof -
  let ?G = "group_count key rows" and ?L = "rev (group_count key rows)"
  show "length (latest n rows) = min n (card (key ` set rows))"
    by (simp add: latest_def group_count_length min.commute)
  show "fst e \<in> key ` set rows \<and> snd e = length (filter (\<lambda>r. key r = fst e) rows)"
    if "e \<in> set (latest n rows)"
  proof -
    from that have "e \<in> set ?G" unfolding latest_def by (auto dest: in_set_takeD)
    then have "(fst e, snd e) \<in> set ?G" by simp
    from group_count_entry(1,2) [OF this] show ?thesis by simp
  qed
  show "fst ` set (latest n rows) = key ` set rows" if "card (key ` set rows) \<le> n"
  proof -
    from that have "length ?L \<le> n" by (simp add: group_count_length)
    then have "latest n rows = ?L" by (simp add: latest_def)
    then show ?thesis by (simp add: group_count_key_set)
  qed
  show "k < fst e"
    if k: "k \<in> key ` set rows" "k \<notin> fst ` set (latest n rows)" and e: "e \<in> set (latest n rows)"
  proof -
    let ?x = "(k, length (filter (\<lambda>r. key r = k) rows))"
    have "sorted_wrt (<) (map fst ?G)"
      by (simp add: group_count_keys strict_sorted_iff)
    then have "sorted_wrt (\<lambda>x y. fst x < fst y) ?G" by (simp only: sorted_wrt_map)
    then have desc: "sorted_wrt (\<lambda>x y. fst y < fst x) ?L" by (simp add: sorted_wrt_rev)
    from group_count_member [OF k(1)] have "?x \<in> set ?L" by simp
    moreover from k(2) have "?x \<notin> set (take n ?L)" unfolding latest_def by force
    ultimately have "?x \<in> set (drop n ?L)" using set_take_drop [of ?L n] by blast
    with sorted_wrt_take_drop [OF desc, of e n ?x] e
    show ?thesis by (simp add: latest_def)
  qed
qed

text \<open>
  C9, as amended. On an accessible database the count grouped by company holds the
  exact counts of the ten companies with the most applications (of all of them when
  there are at most ten), and the count grouped by month holds the exact counts of the
  twelve latest months (of all of them when there are at most twelve): a company
  without an entry has no more applications than any company with one, and a month
  without an entry lies before every month with one.
\<close>

theorem get_statistics_groups:
  assumes "accessible st"
  shows "\<exists>s. get_statistics month_of st = Inr (Some s)
     \<and> length (company_counts s) = min 10 (card (company ` set (job_applications st)))
     \<and> length (monthly_counts s)
         = min 12 (card ((\<lambda>a. month_of (application_date a)) ` set (job_applications st)))
     \<and> (\<forall>e\<in>set (company_counts s).
           fst e \<in> company ` set (job_applications st)
           \<and> snd e = length (filter (\<lambda>a. company a = fst e) (job_applications st)))
     \<and> (\<forall>e\<in>set (monthly_counts s).
           fst e \<in> (\<lambda>a. month_of (application_date a)) ` set (job_applications st)
           \<and> snd e = length (filter (\<lambda>a. month_of (application_date a) = fst e)
                        (job_applications st)))
     \<and> (card (company ` set (job_applications st)) \<le> 10 \<longrightarrow>
           fst ` set (company_counts s) = company ` set (job_applications st))
     \<and> (card ((\<lambda>a. month_of (application_date a)) ` set (job_applications st)) \<le> 12 \<longrightarrow>
           fst ` set (monthly_counts s)
             = (\<lambda>a. month_of (application_date a)) ` set (job_applications st))
     \<and> (\<forall>c\<in>company ` set (job_applications st). c \<notin> fst ` set (company_counts s) \<longrightarrow>
           (\<forall>e\<in>set (company_counts s).
              length (filter (\<lambda>a. company a = c) (job_applications st)) \<le> snd e))
     \<and> (\<forall>m\<in>(\<lambda>a. month_of (application_date a)) ` set (job_applications st).
           m \<notin> fst ` set (monthly_counts s) \<longrightarrow> (\<forall>e\<in>set (monthly_counts s). m < fst e))"
proof -
  let ?rows = "job_applications st"
  let ?month = "\<lambda>a. month_of (application_date a)"
  note best = top_groups [where key = company and rows = ?rows and n = 10]
  note latest = latest_groups [where key = ?month and rows = ?rows and n = 12]
  from get_statistics_accessible [OF assms, of month_of] obtain s where
    s: "get_statistics month_of st = Inr (Some s)"
    and cc: "company_counts s = take 10 (order_by_desc snd (group_count company ?rows))"
    and mc: "monthly_counts s = take 12 (rev (group_count ?month ?rows))"
    by simp
  have 1: "length (company_counts s) = min 10 (card (company ` set ?rows))"
    unfolding cc by (rule best(1))
  have 2: "length (monthly_counts s) = min 12 (card (?month ` set ?rows))"
    unfolding mc by (rule latest(1))
  have 3: "\<forall>e\<in>set (company_counts s).
      fst e \<in> company ` set ?rows \<and> snd e = length (filter (\<lambda>a. company a = fst e) ?rows)"
    unfolding cc using best(2) by blast
  have 4: "\<forall>e\<in>set (monthly_counts s).
      fst e \<in> ?month ` set ?rows \<and> snd e = length (filter (\<lambda>a. ?month a = fst e) ?rows)"
    unfolding mc using latest(2) by blast
  have 5: "card (company ` set ?rows) \<le> 10 \<longrightarrow>
      fst ` set (company_counts s) = company ` set ?rows"
    unfolding cc using best(3) by blast
  have 6: "card (?month ` set ?rows) \<le> 12 \<longrightarrow>
      fst ` set (monthly_counts s) = ?month ` set ?rows"
    unfolding mc using latest(3) by blast
  have 7: "\<forall>c\<in>company ` set ?rows. c \<notin> fst ` set (company_counts s) \<longrightarrow>
      (\<forall>e\<in>set (company_counts s). length (filter (\<lambda>a. company a = c) ?rows) \<le> snd e)"
    unfolding cc using best(4) by blast
  have 8: "\<forall>m\<in>?month ` set ?rows. m \<notin> fst ` set (monthly_counts s) \<longrightarrow>
      (\<forall>e\<in>set (monthly_counts s). m < fst e)"
    unfolding mc using latest(4) by blast
  from s 1 2 3 4 5 6 7 8 show ?thesis by blast
qed

lemma scenario_statistics:
  "get_statistics iso_month scenario_store =
     Inr (Some
       \<lparr>total_applications = 3, status_counts = [(Some ''applied'', 3)],
        company_counts = [(Some ''Meta'', 2), (Some ''Google'', 1)],
        monthly_counts = [(Some ''2024-03'', 3)], total_interviews = 0,
        response_rate = 0\<rparr>)"
  by code_simp

theorem get_statistics_groups_witness:
  "accessible scenario_store
   \<and> get_statistics iso_month scenario_store =
       Inr (Some
         \<lparr>total_applications = 3, status_counts = [(Some ''applied'', 3)],
          company_counts = [(Some ''Meta'', 2), (Some ''Google'', 1)],
          monthly_counts = [(Some ''2024-03'', 3)], total_interviews = 0,
          response_rate = 0\<rparr>)
   \<and> card (company ` set (job_applications scenario_store)) \<le> 10
   \<and> company ` set (job_applications scenario_store) = {Some ''Meta'', Some ''Google''}"
proof -
  have a: "accessible scenario_store"
    by (simp add: scenario_store_def)
  have c: "company ` set (job_applications scenario_store) = {Some ''Meta'', Some ''Google''}"
    by (simp add: scenario_store_def application_at_def)
  then have n: "card (company ` set (job_applications scenario_store)) \<le> 10"
    by simp
  from get_statistics_groups [OF a, of iso_month] scenario_statistics a c n
  show ?thesis by simp
qed

text \<open>
  C9 as stated fails on a store with eleven companies: ten of them have two applications
  each and an entry in the count by company; the eleventh, \<open>K\<close>, has one application
  and no entry.
\<close>

theorem get_statistics_eleven_companies_counterexample:
  "get_statistics iso_month crowded_store =
     Inr (Some
       \<lparr>total_applications = 21, status_counts = [(Some ''applied'', 21)],
        company_counts =
          [(Some ''A'', 2), (Some ''B'', 2), (Some ''C'', 2), (Some ''D'', 2), (Some ''E'', 2),
           (Some ''F'', 2), (Some ''G'', 2), (Some ''H'', 2), (Some ''I'', 2), (Some ''J'', 2)],
        monthly_counts = [(Some ''2024-03'', 21)], total_interviews = 0,
        response_rate = 0\<rparr>)
   \<and> company (job_applications crowded_store ! 20) = Some ''K''"
  by code_simp

subsection \<open>Follow-up reminders (C3)\<close>


lemma needs_follow_up_None: "\<not> needs_follow_up None a"
  by (simp add: needs_follow_up_def sql_le_def split: option.splits)






end
